theory Spec2Isabelle
  imports Complex_Main
begin

section \<open>The C++ type \<open>float\<close>\<close>

text \<open>
  Every numeric field and argument of the controller is a C++ \<open>float\<close>. The model keeps
  the special values of IEEE 754 (the two zeros, the two infinities, NaN), because the
  controller divides by fields that can be zero and compares values that can be NaN.
  A decimal literal or argument that is not a binary32 value is converted by \<open>to_float\<close>,
  which rounds to the nearest binary32 value, ties to even. The four arithmetic
  operations are exact on finite operands: their rounding to 24 bits, overflow to an
  infinity and underflow to zero are not modelled. \<open>Finite 0\<close> is the positive zero.
\<close>

datatype cfloat = Finite real | NegZero | PosInf | NegInf | NaN

fun valof :: "cfloat \<Rightarrow> real" where
  "valof (Finite r) = r"
| "valof NegZero = 0"
| "valof PosInf = 0"
| "valof NegInf = 0"
| "valof NaN = 0"

fun signbit :: "cfloat \<Rightarrow> bool" where
  "signbit (Finite r) = (r < 0)"
| "signbit NegZero = True"
| "signbit PosInf = False"
| "signbit NegInf = True"
| "signbit NaN = False"

fun is_zero :: "cfloat \<Rightarrow> bool" where
  "is_zero (Finite r) = (r = 0)"
| "is_zero NegZero = True"
| "is_zero PosInf = False"
| "is_zero NegInf = False"
| "is_zero NaN = False"

fun is_inf :: "cfloat \<Rightarrow> bool" where
  "is_inf (Finite r) = False"
| "is_inf NegZero = False"
| "is_inf PosInf = True"
| "is_inf NegInf = True"
| "is_inf NaN = False"

fun is_nan :: "cfloat \<Rightarrow> bool" where
  "is_nan (Finite r) = False"
| "is_nan NegZero = False"
| "is_nan PosInf = False"
| "is_nan NegInf = False"
| "is_nan NaN = True"

fun is_fin :: "cfloat \<Rightarrow> bool" where
  "is_fin (Finite r) = True"
| "is_fin NegZero = True"
| "is_fin PosInf = False"
| "is_fin NegInf = False"
| "is_fin NaN = False"

definition zero_signed :: "bool \<Rightarrow> cfloat" where
  "zero_signed neg = (if neg then NegZero else Finite 0)"

definition inf_signed :: "bool \<Rightarrow> cfloat" where
  "inf_signed neg = (if neg then NegInf else PosInf)"

text \<open>
  Conversion of a real number to \<open>float\<close>, as for the literal \<open>3.3\<close> passed to a \<open>float\<close>
  parameter. \<open>bin_exp a\<close> is the binary exponent of \<open>a > 0\<close>, not below -126 (the
  exponent of the subnormals) and 128 when \<open>a\<close> is beyond the range; the spacing of the
  binary32 values around \<open>a\<close> is two to that exponent minus 23.
\<close>

definition pow2 :: "int \<Rightarrow> real" where
  "pow2 e = (if 0 \<le> e then 2 ^ nat e else 1 / 2 ^ nat (- e))"

fun exp_up :: "nat \<Rightarrow> int \<Rightarrow> real \<Rightarrow> int" where
  "exp_up 0 e a = e"
| "exp_up (Suc n) e a = (if pow2 (e + 1) \<le> a then exp_up n (e + 1) a else e)"

fun exp_down :: "nat \<Rightarrow> int \<Rightarrow> real \<Rightarrow> int" where
  "exp_down 0 e a = e"
| "exp_down (Suc n) e a = (if a < pow2 e then exp_down n (e - 1) a else e)"

definition bin_exp :: "real \<Rightarrow> int" where
  "bin_exp a = (if 1 \<le> a then exp_up 128 0 a else exp_down 126 0 a)"

definition round_even :: "real \<Rightarrow> int" where
  "round_even t =
     (let n = \<lfloor>t\<rfloor>; r = t - of_int n
      in if r < 1 / 2 then n else if 1 / 2 < r then n + 1 else if even n then n else n + 1)"

definition to_float :: "real \<Rightarrow> cfloat" where
  "to_float x =
     (if x = 0 then Finite 0
      else
        let a = \<bar>x\<bar>;
            q = pow2 (bin_exp a - 23);
            y = of_int (round_even (a / q)) * q
        in if pow2 128 \<le> y then inf_signed (x < 0)
           else if y = 0 then zero_signed (x < 0)
           else Finite (if x < 0 then - y else y))"

fun fneg :: "cfloat \<Rightarrow> cfloat" where
  "fneg (Finite r) = (if r = 0 then NegZero else Finite (- r))"
| "fneg NegZero = Finite 0"
| "fneg PosInf = NegInf"
| "fneg NegInf = PosInf"
| "fneg NaN = NaN"

text \<open>\<open>a + b\<close>: opposite infinities give NaN; an exact zero sum is \<open>+0\<close> unless both are \<open>-0\<close>.\<close>

definition fadd :: "cfloat \<Rightarrow> cfloat \<Rightarrow> cfloat" where
  "fadd a b =
     (if is_nan a \<or> is_nan b then NaN
      else if is_inf a \<and> is_inf b \<and> a \<noteq> b then NaN
      else if is_inf a then a
      else if is_inf b then b
      else if a = NegZero \<and> b = NegZero then NegZero
      else Finite (valof a + valof b))"

definition fsub :: "cfloat \<Rightarrow> cfloat \<Rightarrow> cfloat" where
  "fsub a b = fadd a (fneg b)"

text \<open>\<open>a * b\<close>: zero times infinity is NaN; the sign of a zero or infinite product is the
  exclusive or of the signs.\<close>

definition fmul :: "cfloat \<Rightarrow> cfloat \<Rightarrow> cfloat" where
  "fmul a b =
     (if is_nan a \<or> is_nan b then NaN
      else if (is_zero a \<and> is_inf b) \<or> (is_inf a \<and> is_zero b) then NaN
      else if is_inf a \<or> is_inf b then inf_signed (signbit a \<noteq> signbit b)
      else if is_zero a \<or> is_zero b then zero_signed (signbit a \<noteq> signbit b)
      else Finite (valof a * valof b))"

text \<open>\<open>a / b\<close>: \<open>0/0\<close> and \<open>inf/inf\<close> are NaN; a nonzero value divided by zero is an
  infinity. Nothing traps.\<close>

definition fdiv :: "cfloat \<Rightarrow> cfloat \<Rightarrow> cfloat" where
  "fdiv a b =
     (if is_nan a \<or> is_nan b then NaN
      else if (is_zero a \<and> is_zero b) \<or> (is_inf a \<and> is_inf b) then NaN
      else if is_inf a \<or> is_zero b then inf_signed (signbit a \<noteq> signbit b)
      else if is_inf b \<or> is_zero a then zero_signed (signbit a \<noteq> signbit b)
      else Finite (valof a / valof b))"

text \<open>The comparisons: each is false when an operand is NaN; the two zeros are equal.\<close>

definition flt :: "cfloat \<Rightarrow> cfloat \<Rightarrow> bool" where
  "flt a b =
     (if is_nan a \<or> is_nan b then False
      else if a = NegInf then b \<noteq> NegInf
      else if b = PosInf then a \<noteq> PosInf
      else if is_inf a \<or> is_inf b then False
      else valof a < valof b)"

definition feq :: "cfloat \<Rightarrow> cfloat \<Rightarrow> bool" where
  "feq a b =
     (if is_nan a \<or> is_nan b then False
      else if is_inf a \<or> is_inf b then a = b
      else valof a = valof b)"

definition fle :: "cfloat \<Rightarrow> cfloat \<Rightarrow> bool" where
  "fle a b = (flt a b \<or> feq a b)"

definition fgt :: "cfloat \<Rightarrow> cfloat \<Rightarrow> bool" where
  "fgt a b = flt b a"

definition fge :: "cfloat \<Rightarrow> cfloat \<Rightarrow> bool" where
  "fge a b = fle b a"

section \<open>The controller state (class \<open>PID\<close>, PID.h)\<close>

text \<open>
  The fields of the class, in the order of their declaration. The source writes each
  with a leading underscore (\<open>_Kc\<close>, \<open>_tauR\<close>, ...), which an Isabelle name cannot
  start with; here each carries the prefix \<open>m_\<close> instead.
\<close>

record PID =
  m_usingFeedForward :: bool
  m_inAuto :: bool
  m_Kc :: cfloat
  m_tauR :: cfloat
  m_tauD :: cfloat
  m_pParam :: cfloat
  m_iParam :: cfloat
  m_dParam :: cfloat
  m_setPoint :: cfloat
  m_processVariable :: cfloat
  m_prevProcessVariable :: cfloat
  m_controllerOutput :: cfloat
  m_prevControllerOutput :: cfloat
  m_inMin :: cfloat
  m_inMax :: cfloat
  m_inSpan :: cfloat
  m_outMin :: cfloat
  m_outMax :: cfloat
  m_outSpan :: cfloat
  m_accError :: cfloat
  m_bias :: cfloat
  m_tSample :: cfloat
  m_realOutput :: cfloat

text \<open>The macro \<open>constrain(value, low, high)\<close> of PID.h.\<close>

definition constrain :: "cfloat \<Rightarrow> cfloat \<Rightarrow> cfloat \<Rightarrow> cfloat" where
  "constrain v low high = (if flt v low then low else if fgt v high then high else v)"

section \<open>The operations (PID.cpp)\<close>

definition setInputLimits :: "cfloat \<Rightarrow> cfloat \<Rightarrow> PID \<Rightarrow> PID" where
  "setInputLimits inMin inMax s =
     (if fge inMin inMax then s
      else
        let ratio = fdiv (fsub inMax inMin) (m_inSpan s);
            s1 = s\<lparr>m_prevProcessVariable := fmul (m_prevProcessVariable s) ratio\<rparr>;
            s2 = s1\<lparr>m_accError := fmul (m_accError s1) ratio\<rparr>;
            s3 = s2\<lparr>m_prevProcessVariable :=
                      constrain (m_prevProcessVariable s2) (Finite 0) (Finite 1)\<rparr>
        in s3\<lparr>m_inMin := inMin, m_inMax := inMax, m_inSpan := fsub inMax inMin\<rparr>)"

definition setOutputLimits :: "cfloat \<Rightarrow> cfloat \<Rightarrow> PID \<Rightarrow> PID" where
  "setOutputLimits outMin outMax s =
     (if fge outMin outMax then s
      else
        let s1 = s\<lparr>m_prevControllerOutput :=
                     fmul (m_prevControllerOutput s) (fdiv (fsub outMax outMin) (m_outSpan s))\<rparr>;
            s2 = s1\<lparr>m_prevControllerOutput :=
                      constrain (m_prevControllerOutput s1) (Finite 0) (Finite 1)\<rparr>
        in s2\<lparr>m_outMin := outMin, m_outMax := outMax, m_outSpan := fsub outMax outMin\<rparr>)"

definition setTunings :: "cfloat \<Rightarrow> cfloat \<Rightarrow> cfloat \<Rightarrow> PID \<Rightarrow> PID" where
  "setTunings Kc tauI tauD s =
     (if feq Kc (Finite 0) \<or> flt tauI (Finite 0) \<or> flt tauD (Finite 0) then s
      else
        let s1 = s\<lparr>m_pParam := Kc, m_iParam := tauI, m_dParam := tauD\<rparr>;
            tempTauR = (if feq tauI (Finite 0) then Finite 0
                        else fmul (fdiv (Finite 1) tauI) (m_tSample s1));
            s2 = (if m_inAuto s1
                  then (if feq tempTauR (Finite 0) then s1\<lparr>m_accError := Finite 0\<rparr>
                        else s1\<lparr>m_accError := fmul (m_accError s1)
                                 (fdiv (fmul (m_Kc s1) (m_tauR s1)) (fmul Kc tempTauR))\<rparr>)
                  else s1)
        in s2\<lparr>m_Kc := Kc, m_tauR := tempTauR, m_tauD := fdiv tauD (m_tSample s2)\<rparr>)"

definition reset :: "PID \<Rightarrow> PID" where
  "reset s =
     (let scaledBias = (if m_usingFeedForward s
                        then fdiv (fsub (m_bias s) (m_outMin s)) (m_outSpan s)
                        else fdiv (fsub (m_realOutput s) (m_outMin s)) (m_outSpan s))
      in s\<lparr>m_prevControllerOutput := scaledBias,
           m_prevProcessVariable := fdiv (fsub (m_processVariable s) (m_inMin s)) (m_inSpan s),
           m_accError := Finite 0\<rparr>)"

definition setMode :: "int \<Rightarrow> PID \<Rightarrow> PID" where
  "setMode mode s =
     (let s1 = (if mode \<noteq> 0 \<and> \<not> m_inAuto s then reset s else s)
      in s1\<lparr>m_inAuto := (mode \<noteq> 0)\<rparr>)"

definition setInterval :: "cfloat \<Rightarrow> PID \<Rightarrow> PID" where
  "setInterval interval s =
     (if fgt interval (Finite 0)
      then
        let s1 = s\<lparr>m_tauR := fmul (m_tauR s) (fdiv interval (m_tSample s))\<rparr>;
            s2 = s1\<lparr>m_accError := fmul (m_accError s1) (fdiv (m_tSample s1) interval)\<rparr>;
            s3 = s2\<lparr>m_tauD := fmul (m_tauD s2) (fdiv interval (m_tSample s2))\<rparr>
        in s3\<lparr>m_tSample := interval\<rparr>
      else s)"

definition setSetPoint :: "cfloat \<Rightarrow> PID \<Rightarrow> PID" where
  "setSetPoint sp s = s\<lparr>m_setPoint := sp\<rparr>"

definition getSetPoint :: "PID \<Rightarrow> cfloat" where
  "getSetPoint s = m_setPoint s"

definition setProcessValue :: "cfloat \<Rightarrow> PID \<Rightarrow> PID" where
  "setProcessValue pv s = s\<lparr>m_processVariable := pv\<rparr>"

definition setBias :: "cfloat \<Rightarrow> PID \<Rightarrow> PID" where
  "setBias bias s = s\<lparr>m_bias := bias, m_usingFeedForward := True\<rparr>"

text \<open>
  The constructor. The fields of a new object are uninitialised, and the two limit
  setters and \<open>setTunings\<close> read some of them before anything is stored; \<open>mem\<close> is that
  arbitrary initial content. The default upper limit is the literal \<open>3.3\<close> converted to
  \<open>float\<close>.
\<close>

definition PID_new :: "PID \<Rightarrow> cfloat \<Rightarrow> cfloat \<Rightarrow> cfloat \<Rightarrow> cfloat \<Rightarrow> PID" where
  "PID_new mem Kc tauI tauD interval =
     (let s1 = mem\<lparr>m_usingFeedForward := False, m_inAuto := False\<rparr>;
          s2 = setInputLimits (Finite 0) (to_float 3.3) s1;
          s3 = setOutputLimits (Finite 0) (to_float 3.3) s2;
          s4 = s3\<lparr>m_tSample := interval\<rparr>;
          s5 = setTunings Kc tauI tauD s4
      in s5\<lparr>m_setPoint := Finite 0, m_processVariable := Finite 0,
            m_prevProcessVariable := Finite 0, m_controllerOutput := Finite 0,
            m_prevControllerOutput := Finite 0, m_accError := Finite 0,
            m_bias := Finite 0, m_realOutput := Finite 0\<rparr>)"

subsection \<open>\<open>PID::compute\<close>\<close>

text \<open>The locals \<open>scaledPV\<close>, \<open>scaledSP\<close> and \<open>error\<close> of \<open>compute\<close>, as functions of
  the state on entry.\<close>

definition scaledPV :: "PID \<Rightarrow> cfloat" where
  "scaledPV s =
     constrain (fdiv (fsub (m_processVariable s) (m_inMin s)) (m_inSpan s)) (Finite 0) (Finite 1)"

definition scaledSP :: "PID \<Rightarrow> cfloat" where
  "scaledSP s =
     constrain (fdiv (fsub (m_setPoint s) (m_inMin s)) (m_inSpan s)) (Finite 0) (Finite 1)"

definition error :: "PID \<Rightarrow> cfloat" where
  "error s = fsub (scaledSP s) (scaledPV s)"

text \<open>\<open>compute\<close> returns the real-world output and the updated state.\<close>

definition compute :: "PID \<Rightarrow> cfloat \<times> PID" where
  "compute s =
     (let s1 = (if \<not> (fge (m_prevControllerOutput s) (Finite 1) \<and> fgt (error s) (Finite 0))
                   \<and> \<not> (fle (m_prevControllerOutput s) (Finite 0) \<and> flt (error s) (Finite 0))
                then s\<lparr>m_accError := fadd (m_accError s) (error s)\<rparr>
                else s);
          dMeas = fdiv (fsub (scaledPV s) (m_prevProcessVariable s1)) (m_tSample s1);
          scaledBias = (if m_usingFeedForward s1
                        then fdiv (fsub (m_bias s1) (m_outMin s1)) (m_outSpan s1)
                        else Finite 0);
          s2 = s1\<lparr>m_controllerOutput :=
                    fadd scaledBias
                      (fmul (m_Kc s1)
                         (fsub (fadd (error s) (fmul (m_tauR s1) (m_accError s1)))
                               (fmul (m_tauD s1) dMeas)))\<rparr>;
          s3 = s2\<lparr>m_controllerOutput := constrain (m_controllerOutput s2) (Finite 0) (Finite 1)\<rparr>;
          s4 = s3\<lparr>m_prevControllerOutput := m_controllerOutput s3\<rparr>;
          s5 = s4\<lparr>m_prevProcessVariable := scaledPV s\<rparr>
      in (fadd (fmul (m_controllerOutput s5) (m_outSpan s5)) (m_outMin s5), s5))"

section \<open>Concrete states\<close>

text \<open>An object whose memory holds zeros before the constructor runs.\<close>

definition zero_mem :: PID where
  "zero_mem = \<lparr>m_usingFeedForward = False, m_inAuto = False, m_Kc = Finite 0,
     m_tauR = Finite 0, m_tauD = Finite 0, m_pParam = Finite 0, m_iParam = Finite 0,
     m_dParam = Finite 0, m_setPoint = Finite 0, m_processVariable = Finite 0,
     m_prevProcessVariable = Finite 0, m_controllerOutput = Finite 0,
     m_prevControllerOutput = Finite 0, m_inMin = Finite 0, m_inMax = Finite 0,
     m_inSpan = Finite 0, m_outMin = Finite 0, m_outMax = Finite 0, m_outSpan = Finite 0,
     m_accError = Finite 0, m_bias = Finite 0, m_tSample = Finite 0,
     m_realOutput = Finite 0\<rparr>"

text \<open>\<open>PID(2.0, 5.0, 1.0, 1.0)\<close>, the controller of the spec's scenario.\<close>

definition demo :: PID where
  "demo = PID_new zero_mem (Finite 2) (Finite 5) (Finite 1) (Finite 1)"

text \<open>The scenario of the spec: setpoint 1.65, process value 0, automatic mode.\<close>

definition engaged :: PID where
  "engaged = setMode 1 (setProcessValue (Finite 0) (setSetPoint (to_float 1.65) demo))"

text \<open>\<open>PID(1.0, 1.0, 1.0, 0.0)\<close>: the constructor stores the interval it is given.\<close>

definition zero_interval :: PID where
  "zero_interval = PID_new zero_mem (Finite 1) (Finite 1) (Finite 1) (Finite 0)"

text \<open>\<open>PID(0.25, 0.0, 0.0, 1.0)\<close> with the setpoint at the top of the input range: a
  proportional controller whose output stays below saturation at full error.\<close>

definition gentle :: PID where
  "gentle =
     setSetPoint (to_float 3.3) (PID_new zero_mem (Finite 0.25) (Finite 0) (Finite 0) (Finite 1))"

section \<open>Predicates on states\<close>

text \<open>A scaled quantity lies in the closed interval from 0 to 1.\<close>

definition in01 :: "cfloat \<Rightarrow> bool" where
  "in01 x = (fle (Finite 0) x \<and> fle x (Finite 1))"

definition scaled_ok :: "PID \<Rightarrow> bool" where
  "scaled_ok s =
     (in01 (m_prevProcessVariable s) \<and> in01 (m_controllerOutput s)
      \<and> in01 (m_prevControllerOutput s))"

text \<open>What \<open>constrain(v, 0.0, 1.0)\<close> can return: a value between 0 and 1, or NaN.\<close>

definition in01_or_nan :: "cfloat \<Rightarrow> bool" where
  "in01_or_nan x = (in01 x \<or> is_nan x)"

definition clamped :: "PID \<Rightarrow> bool" where
  "clamped s =
     (in01_or_nan (m_prevProcessVariable s) \<and> in01_or_nan (m_controllerOutput s)
      \<and> in01_or_nan (m_prevControllerOutput s))"

section \<open>Facts about the comparisons\<close>

lemmas cmp_defs = flt_def feq_def fle_def fgt_def fge_def

lemmas arith_defs = fadd_def fsub_def fmul_def fdiv_def zero_signed_def inf_signed_def

lemma fle_not_flt: "fle a b \<Longrightarrow> \<not> flt b a"
  by (cases a; cases b; auto simp add: cmp_defs)

lemma flt_not_feq: "flt a b \<Longrightarrow> \<not> feq b a"
  by (cases a; cases b; auto simp add: cmp_defs)

text \<open>The binary32 values of the literals: \<open>13841203 / 4194304\<close> is
  \<open>3.2999999523162841796875\<close>.\<close>

lemma to_float_3_3: "to_float 3.3 = Finite (13841203 / 4194304)"
  by code_simp

lemma to_float_1_65: "to_float 1.65 = Finite (13841203 / 8388608)"
  by code_simp

lemma to_float_6_6: "to_float 6.6 = Finite (13841203 / 2097152)"
  by code_simp

lemma demo_manual: "\<not> m_inAuto demo"
  by code_simp

lemma demo_tSample: "m_tSample demo = Finite 1"
  by code_simp

lemma engaged_auto: "m_inAuto engaged"
  by code_simp

section \<open>The constructor\<close>

text \<open>
  Claim C10. Whatever the arguments and whatever the memory held before, the constructed
  controller is in manual mode with feed-forward disabled, has input limits 0 and 3.3 and
  output limits 0 and 3.3 (the constructor's literals, as \<open>float\<close>), has setpoint, process variable, previous scaled process
  variable, controller output, previous controller output, accumulated error, bias and
  last real output equal to zero, and has the interval argument as its sample interval.
\<close>

theorem PID_new_initial_state:
  "\<not> m_inAuto (PID_new mem Kc tauI tauD interval)
   \<and> \<not> m_usingFeedForward (PID_new mem Kc tauI tauD interval)
   \<and> m_inMin (PID_new mem Kc tauI tauD interval) = Finite 0
   \<and> m_inMax (PID_new mem Kc tauI tauD interval) = to_float 3.3
   \<and> m_outMin (PID_new mem Kc tauI tauD interval) = Finite 0
   \<and> m_outMax (PID_new mem Kc tauI tauD interval) = to_float 3.3
   \<and> m_setPoint (PID_new mem Kc tauI tauD interval) = Finite 0
   \<and> m_processVariable (PID_new mem Kc tauI tauD interval) = Finite 0
   \<and> m_prevProcessVariable (PID_new mem Kc tauI tauD interval) = Finite 0
   \<and> m_controllerOutput (PID_new mem Kc tauI tauD interval) = Finite 0
   \<and> m_prevControllerOutput (PID_new mem Kc tauI tauD interval) = Finite 0
   \<and> m_accError (PID_new mem Kc tauI tauD interval) = Finite 0
   \<and> m_bias (PID_new mem Kc tauI tauD interval) = Finite 0
   \<and> m_realOutput (PID_new mem Kc tauI tauD interval) = Finite 0
   \<and> m_tSample (PID_new mem Kc tauI tauD interval) = interval"
proof -
  have lim: "\<not> fge (Finite 0) (to_float 3.3)"
    by (simp add: to_float_3_3 cmp_defs)
  show ?thesis
    by (simp add: PID_new_def setInputLimits_def setOutputLimits_def setTunings_def lim Let_def)
qed

section \<open>Rejected configuration requests\<close>

text \<open>
  Claim C4. A limit pair with \<open>min >= max\<close>, a tuning with \<open>Kc == 0\<close> or \<open>tauI < 0\<close> or
  \<open>tauD < 0\<close>, and an interval \<open><= 0\<close> each leave the whole state as it was. The four
  mutators return nothing but the state, so nothing is signalled to the caller.
\<close>

theorem invalid_request_noop:
  "(fge inMin inMax \<longrightarrow> setInputLimits inMin inMax s = s)
   \<and> (fge outMin outMax \<longrightarrow> setOutputLimits outMin outMax s = s)
   \<and> (feq Kc (Finite 0) \<or> flt tauI (Finite 0) \<or> flt tauD (Finite 0)
        \<longrightarrow> setTunings Kc tauI tauD s = s)
   \<and> (fle interval (Finite 0) \<longrightarrow> setInterval interval s = s)"
  by (auto simp add: setInputLimits_def setOutputLimits_def setTunings_def setInterval_def
        fgt_def dest: fle_not_flt)

theorem invalid_request_noop_witness:
  "fge (Finite 2) (Finite 1) \<and> setInputLimits (Finite 2) (Finite 1) engaged = engaged
   \<and> fge (Finite 1) (Finite 1) \<and> setOutputLimits (Finite 1) (Finite 1) engaged = engaged
   \<and> feq (Finite 0) (Finite 0) \<and> setTunings (Finite 0) (Finite 5) (Finite 1) engaged = engaged
   \<and> flt (Finite (- 1)) (Finite 0)
   \<and> setTunings (Finite 2) (Finite (- 1)) (Finite 1) engaged = engaged
   \<and> setTunings (Finite 2) (Finite 5) (Finite (- 1)) engaged = engaged
   \<and> fle (Finite 0) (Finite 0) \<and> setInterval (Finite 0) engaged = engaged"
proof -
  have h: "fge (Finite 2) (Finite 1)" "fge (Finite 1) (Finite 1)" "feq (Finite 0) (Finite 0)"
    "flt (Finite (- 1)) (Finite 0)" "fle (Finite 0) (Finite 0)"
    by (simp_all add: cmp_defs)
  show ?thesis
    using h
      invalid_request_noop [where inMin = "Finite 2" and inMax = "Finite 1" and s = engaged
        and outMin = "Finite 1" and outMax = "Finite 1" and Kc = "Finite 0"
        and tauI = "Finite 5" and tauD = "Finite 1" and interval = "Finite 0"]
      invalid_request_noop [where s = engaged and Kc = "Finite 2"
        and tauI = "Finite (- 1)" and tauD = "Finite 1"]
      invalid_request_noop [where s = engaged and Kc = "Finite 2"
        and tauI = "Finite 5" and tauD = "Finite (- 1)"]
    by blast
qed

section \<open>Mode switching\<close>

text \<open>
  Claim C9. \<open>setMode\<close> with a nonzero mode on a controller in manual mode performs
  \<open>reset\<close> and then sets the automatic flag; with a nonzero mode on a controller already
  in automatic mode it changes nothing; \<open>setMode(0)\<close> clears the automatic flag and
  changes no other field.
\<close>

theorem setMode_effect:
  "(mode \<noteq> 0 \<and> \<not> m_inAuto s \<longrightarrow> setMode mode s = (reset s)\<lparr>m_inAuto := True\<rparr>)
   \<and> (mode \<noteq> 0 \<and> m_inAuto s \<longrightarrow> setMode mode s = s)
   \<and> setMode 0 s = s\<lparr>m_inAuto := False\<rparr>"
  by (simp add: setMode_def)

theorem setMode_effect_witness:
  "(1::int) \<noteq> 0 \<and> \<not> m_inAuto demo \<and> setMode 1 demo = (reset demo)\<lparr>m_inAuto := True\<rparr>
   \<and> (7::int) \<noteq> 0 \<and> m_inAuto engaged \<and> setMode 7 engaged = engaged
   \<and> setMode 0 engaged = engaged\<lparr>m_inAuto := False\<rparr>"
  using demo_manual engaged_auto
    setMode_effect [of 1 demo] setMode_effect [of 7 engaged]
  by simp

section \<open>Changing the sample interval\<close>

text \<open>
  Claim C7. For a new interval \<open>i' > 0\<close>, \<open>setInterval\<close> multiplies \<open>tauR\<close> and the
  effective \<open>tauD\<close> by \<open>i'/i\<close> and the accumulated error by \<open>i/i'\<close>, where \<open>i\<close> is the stored
  sample interval, stores \<open>i'\<close>, and changes nothing else. From interval 1 to interval 2
  the accumulated error is multiplied by 0.5 and \<open>tauR\<close> and \<open>tauD\<close> by 2. (The old
  interval need not be positive for this.)
\<close>

theorem setInterval_rescale:
  "(fgt i' (Finite 0) \<longrightarrow>
      setInterval i' s =
        s\<lparr>m_tauR := fmul (m_tauR s) (fdiv i' (m_tSample s)),
          m_accError := fmul (m_accError s) (fdiv (m_tSample s) i'),
          m_tauD := fmul (m_tauD s) (fdiv i' (m_tSample s)),
          m_tSample := i'\<rparr>)
   \<and> (m_tSample s = Finite 1 \<longrightarrow>
        m_accError (setInterval (Finite 2) s) = fmul (m_accError s) (Finite 0.5)
        \<and> m_tauR (setInterval (Finite 2) s) = fmul (m_tauR s) (Finite 2)
        \<and> m_tauD (setInterval (Finite 2) s) = fmul (m_tauD s) (Finite 2)
        \<and> m_tSample (setInterval (Finite 2) s) = Finite 2)"
proof -
  have pos: "fgt (Finite 2) (Finite 0)"
    by (simp add: cmp_defs)
  have half: "fdiv (Finite 1) (Finite 2) = Finite 0.5"
    by (simp add: fdiv_def)
  have twice: "fdiv (Finite 2) (Finite 1) = Finite 2"
    by (simp add: fdiv_def)
  show ?thesis
    by (simp add: setInterval_def Let_def pos half twice)
qed

theorem setInterval_rescale_witness:
  "fgt (Finite 2) (Finite 0) \<and> m_tSample demo = Finite 1
   \<and> setInterval (Finite 2) demo =
       demo\<lparr>m_tauR := fmul (m_tauR demo) (fdiv (Finite 2) (m_tSample demo)),
            m_accError := fmul (m_accError demo) (fdiv (m_tSample demo) (Finite 2)),
            m_tauD := fmul (m_tauD demo) (fdiv (Finite 2) (m_tSample demo)),
            m_tSample := Finite 2\<rparr>
   \<and> m_accError (setInterval (Finite 2) demo) = fmul (m_accError demo) (Finite 0.5)
   \<and> m_tauR (setInterval (Finite 2) demo) = fmul (m_tauR demo) (Finite 2)
   \<and> m_tauD (setInterval (Finite 2) demo) = fmul (m_tauD demo) (Finite 2)"
proof -
  have pos: "fgt (Finite 2) (Finite 0)"
    by (simp add: cmp_defs)
  show ?thesis
    using pos demo_tSample setInterval_rescale [of "Finite 2" demo]
    by blast
qed

section \<open>Changing the tuning\<close>

text \<open>
  Claim C8. For a valid call \<open>setTunings(Kc, tauI, tauD)\<close> (\<open>Kc != 0\<close>, \<open>tauI >= 0\<close>,
  \<open>tauD >= 0\<close>): the new \<open>tauR\<close> is \<open>(1/tauI)*tSample\<close> when \<open>tauI > 0\<close> and 0 when
  \<open>tauI == 0\<close>; the new effective \<open>tauD\<close> is \<open>tauD/tSample\<close>; the raw parameters are
  stored; in automatic mode the accumulated error is multiplied by
  \<open>(oldKc*oldTauR)/(newKc*newTauR)\<close> when the new \<open>tauR\<close> is nonzero and set to 0 when it
  is zero; in manual mode the accumulated error is unchanged.
\<close>

theorem setTunings_effect:
  assumes "\<not> feq Kc (Finite 0)" and "fge tauI (Finite 0)" and "fge tauD (Finite 0)"
  shows "(fgt tauI (Finite 0) \<longrightarrow>
            m_tauR (setTunings Kc tauI tauD s) = fmul (fdiv (Finite 1) tauI) (m_tSample s))
     \<and> (feq tauI (Finite 0) \<longrightarrow> m_tauR (setTunings Kc tauI tauD s) = Finite 0)
     \<and> m_tauD (setTunings Kc tauI tauD s) = fdiv tauD (m_tSample s)
     \<and> m_Kc (setTunings Kc tauI tauD s) = Kc
     \<and> m_pParam (setTunings Kc tauI tauD s) = Kc
     \<and> m_iParam (setTunings Kc tauI tauD s) = tauI
     \<and> m_dParam (setTunings Kc tauI tauD s) = tauD
     \<and> (m_inAuto s \<longrightarrow>
          m_accError (setTunings Kc tauI tauD s) =
            (if feq (m_tauR (setTunings Kc tauI tauD s)) (Finite 0) then Finite 0
             else fmul (m_accError s)
                    (fdiv (fmul (m_Kc s) (m_tauR s))
                          (fmul Kc (m_tauR (setTunings Kc tauI tauD s))))))
     \<and> (\<not> m_inAuto s \<longrightarrow> m_accError (setTunings Kc tauI tauD s) = m_accError s)"
proof -
  have ok: "\<not> (feq Kc (Finite 0) \<or> flt tauI (Finite 0) \<or> flt tauD (Finite 0))"
    using assms by (auto simp add: fge_def dest: fle_not_flt)
  have pos: "fgt tauI (Finite 0) \<Longrightarrow> \<not> feq tauI (Finite 0)"
    by (auto simp add: fgt_def dest: flt_not_feq)
  show ?thesis
    using ok pos by (simp add: setTunings_def Let_def)
qed

theorem setTunings_effect_witness:
  "\<not> feq (Finite 4) (Finite 0) \<and> fge (Finite 10) (Finite 0) \<and> fge (Finite 0) (Finite 0)
   \<and> fgt (Finite 10) (Finite 0) \<and> feq (Finite 0) (Finite 0)
   \<and> m_inAuto (snd (compute engaged)) \<and> \<not> m_inAuto demo
   \<and> m_tauR (setTunings (Finite 4) (Finite 10) (Finite 0) (snd (compute engaged))) = Finite 0.1
   \<and> m_tauD (setTunings (Finite 4) (Finite 10) (Finite 0) (snd (compute engaged))) = Finite 0
   \<and> m_accError (setTunings (Finite 4) (Finite 10) (Finite 0) (snd (compute engaged))) = Finite 0.5
   \<and> m_tauR (setTunings (Finite 4) (Finite 0) (Finite 0) (snd (compute engaged))) = Finite 0
   \<and> m_accError (setTunings (Finite 4) (Finite 0) (Finite 0) (snd (compute engaged))) = Finite 0
   \<and> m_accError (setTunings (Finite 4) (Finite 10) (Finite 0) demo) = m_accError demo"
proof -
  have h: "\<not> feq (Finite 4) (Finite 0)" "fge (Finite 10) (Finite 0)" "fge (Finite 0) (Finite 0)"
    "fgt (Finite 10) (Finite 0)" "feq (Finite 0) (Finite 0)"
    by (simp_all add: cmp_defs)
  have st: "m_inAuto (snd (compute engaged))" "\<not> m_inAuto demo"
    "m_tSample (snd (compute engaged)) = Finite 1"
    "m_accError (snd (compute engaged)) = Finite 0.5"
    "m_Kc (snd (compute engaged)) = Finite 2"
    "m_tauR (snd (compute engaged)) = Finite 0.2"
    by code_simp+
  have ar: "fmul (fdiv (Finite 1) (Finite 10)) (Finite 1) = Finite 0.1"
    "fdiv (Finite 0) (Finite 1) = Finite 0"
    "\<not> feq (Finite 0.1) (Finite 0)"
    "fmul (Finite 0.5) (fdiv (fmul (Finite 2) (Finite 0.2)) (fmul (Finite 4) (Finite 0.1))) = Finite 0.5"
    by (simp_all add: arith_defs cmp_defs)
  show ?thesis
    using h st ar
      setTunings_effect [OF h(1) h(2) h(3), of "snd (compute engaged)"]
      setTunings_effect [OF h(1) h(3) h(3), of "snd (compute engaged)"]
      setTunings_effect [OF h(1) h(2) h(3), of demo]
    by simp
qed

section \<open>Anti-windup\<close>

text \<open>
  Claim C5. \<open>compute\<close> adds the error (scaled setpoint minus scaled process variable) to
  the accumulated error unless the previous controller output is \<open>>= 1\<close> with a positive
  error or \<open><= 0\<close> with a negative error. In particular, when the previous output is
  \<open>>= 1\<close> on entry and the error is positive, the accumulated error after the call is
  the one before it.
\<close>

theorem compute_anti_windup:
  "m_accError (snd (compute s)) =
     (if (fge (m_prevControllerOutput s) (Finite 1) \<and> fgt (error s) (Finite 0))
         \<or> (fle (m_prevControllerOutput s) (Finite 0) \<and> flt (error s) (Finite 0))
      then m_accError s
      else fadd (m_accError s) (error s))
   \<and> (fge (m_prevControllerOutput s) (Finite 1) \<and> fgt (error s) (Finite 0)
        \<longrightarrow> m_accError (snd (compute s)) = m_accError s)"
  by (simp add: compute_def Let_def)

theorem compute_anti_windup_witness:
  "fge (m_prevControllerOutput (snd (compute engaged))) (Finite 1)
   \<and> fgt (error (snd (compute engaged))) (Finite 0)
   \<and> m_accError (snd (compute (snd (compute engaged)))) = m_accError (snd (compute engaged))
   \<and> m_accError (snd (compute engaged)) = fadd (m_accError engaged) (error engaged)"
proof -
  have sat: "fge (m_prevControllerOutput (snd (compute engaged))) (Finite 1)"
    by code_simp
  have pos: "fgt (error (snd (compute engaged))) (Finite 0)"
    by code_simp
  have first: "\<not> fge (m_prevControllerOutput engaged) (Finite 1)" "\<not> flt (error engaged) (Finite 0)"
    by code_simp+
  show ?thesis
    using sat pos first compute_anti_windup [of "snd (compute engaged)"]
      compute_anti_windup [of engaged]
    by simp
qed

section \<open>The output of \<open>compute\<close>\<close>

lemma compute_prevPV: "m_prevProcessVariable (snd (compute s)) = scaledPV s"
  by (simp add: compute_def Let_def)

lemma compute_prevCO: "m_prevControllerOutput (snd (compute s)) = m_controllerOutput (snd (compute s))"
  by (simp add: compute_def Let_def)

lemma compute_realOutput: "m_realOutput (snd (compute s)) = m_realOutput s"
  by (simp add: compute_def Let_def)

lemma compute_result:
  "fst (compute s) = fadd (fmul (m_controllerOutput (snd (compute s))) (m_outSpan s)) (m_outMin s)"
  by (simp add: compute_def Let_def)

text \<open>
  Claim C1 says that the value returned by \<open>compute\<close> lies between \<open>outMin\<close> and \<open>outMax\<close>
  in every reachable state. The constructor stores its interval argument unchecked
  (\<open>setInterval\<close> accepts only \<open>interval > 0\<close>). After \<open>PID(1.0, 1.0, 1.0, 0.0)\<close> the
  sample interval is 0 and the effective \<open>tauD\<close> is \<open>1/0\<close>, an infinity; \<open>compute\<close> then
  forms \<open>dMeas = 0/0\<close>, which is NaN, and NaN passes through \<open>constrain\<close> because both
  of its comparisons are false. The value returned is NaN, which is neither \<open>>= outMin\<close>
  nor \<open><= outMax\<close>, although setpoint and process value are finite and
  \<open>outMin < outMax\<close>.
\<close>

theorem compute_zero_interval_nan:
  "m_tSample zero_interval = Finite 0
   \<and> is_fin (m_setPoint zero_interval) \<and> is_fin (m_processVariable zero_interval)
   \<and> flt (m_outMin zero_interval) (m_outMax zero_interval)
   \<and> fst (compute zero_interval) = NaN
   \<and> \<not> fle (m_outMin zero_interval) (fst (compute zero_interval))
   \<and> \<not> fle (fst (compute zero_interval)) (m_outMax zero_interval)"
  by code_simp

section \<open>\<open>reset\<close> and the last real output\<close>

text \<open>\<open>compute\<close> returns the real-world output but does not store it: the field
  \<open>_realOutput\<close> keeps the value the constructor gave it.\<close>

lemma reset_prevControllerOutput:
  "m_prevControllerOutput (reset s) =
     (if m_usingFeedForward s then fdiv (fsub (m_bias s) (m_outMin s)) (m_outSpan s)
      else fdiv (fsub (m_realOutput s) (m_outMin s)) (m_outSpan s))"
  by (simp add: reset_def Let_def)

lemma reset_prevProcessVariable:
  "m_prevProcessVariable (reset s) = fdiv (fsub (m_processVariable s) (m_inMin s)) (m_inSpan s)"
  by (simp add: reset_def Let_def)

lemma reset_accError: "m_accError (reset s) = Finite 0"
  by (simp add: reset_def Let_def)

text \<open>
  Claim C2 says that with feed-forward disabled, \<open>reset\<close> after a \<open>compute\<close> that returned
  \<open>r\<close> stores \<open>(r - outMin)/outSpan\<close> as the previous controller output. In the scenario
  of the spec \<open>compute\<close> returns the upper output limit, the \<open>float\<close> 3.3, so that
  quotient is 1; \<open>reset\<close> reads \<open>_realOutput\<close>, which is still the constructor's 0, and
  stores 0.
\<close>

theorem reset_ignores_last_output:
  "\<not> m_usingFeedForward (snd (compute engaged))
   \<and> fst (compute engaged) = to_float 3.3
   \<and> fdiv (fsub (fst (compute engaged)) (m_outMin (snd (compute engaged))))
          (m_outSpan (snd (compute engaged))) = Finite 1
   \<and> m_realOutput (snd (compute engaged)) = Finite 0
   \<and> m_prevControllerOutput (reset (snd (compute engaged))) = Finite 0"
  by code_simp

section \<open>The scenario of the spec\<close>

text \<open>In the scenario the scaled output is cut to 1, and \<open>compute\<close> returns the stored
  upper output limit itself.\<close>

lemma first_compute_returns_outMax:
  "m_controllerOutput (snd (compute engaged)) = Finite 1
   \<and> fst (compute engaged) = m_outMax engaged
   \<and> fst (compute engaged) = Finite (13841203 / 4194304)"
  by code_simp

text \<open>
  Claim C6. For \<open>PID(2.0, 5.0, 1.0, 1.0)\<close> with the default limits, after
  \<open>setSetPoint(1.65)\<close>, \<open>setProcessValue(0.0)\<close> and the switch to automatic mode, the
  first \<open>compute\<close> returns a value strictly greater than 0.0 and strictly less than 3.3.
  (The value is the \<open>float\<close> nearest to 3.3, which lies below 3.3.)
\<close>

theorem first_compute_in_range:
  "fgt (fst (compute engaged)) (Finite 0) \<and> flt (fst (compute engaged)) (Finite 3.3)"
  by code_simp

section \<open>The stored scaled quantities\<close>

text \<open>\<open>constrain(v, 0.0, 1.0)\<close> uses comparisons only: an infinity is cut to 0 or 1, a
  NaN is returned as it is, and every other value ends between 0 and 1.\<close>

lemma constrain_in01_or_nan: "in01_or_nan (constrain v (Finite 0) (Finite 1))"
  by (cases v; auto simp add: constrain_def in01_or_nan_def in01_def cmp_defs)

lemma constrain_is_nan: "is_nan (constrain v (Finite 0) (Finite 1)) = is_nan v"
  by (cases v; auto simp add: constrain_def cmp_defs)

lemma in01_Finite_0: "in01 (Finite 0)"
  by (simp add: in01_def cmp_defs)

lemma compute_clamped: "clamped (snd (compute s))"
  by (simp add: clamped_def compute_def Let_def scaledPV_def constrain_in01_or_nan)

lemma setInputLimits_clamped: "clamped s \<Longrightarrow> clamped (setInputLimits lo hi s)"
  by (simp add: clamped_def setInputLimits_def Let_def constrain_in01_or_nan)

lemma setOutputLimits_clamped: "clamped s \<Longrightarrow> clamped (setOutputLimits lo hi s)"
  by (simp add: clamped_def setOutputLimits_def Let_def constrain_in01_or_nan)

lemma PID_new_scaled: "scaled_ok (PID_new mem Kc tauI tauD interval)"
proof -
  have lim: "\<not> fge (Finite 0) (to_float 3.3)"
    by (simp add: to_float_3_3 cmp_defs)
  show ?thesis
    by (simp add: scaled_ok_def PID_new_def setInputLimits_def setOutputLimits_def
          setTunings_def lim in01_Finite_0 Let_def)
qed

text \<open>
  Claim C3 says that after every mutating operation the previous scaled process
  variable, the controller output, the previous controller output and the accumulated
  error lie in the interval from 0 to 1. Three ways in which it fails: two calls of
  \<open>compute\<close> at full error on a gentle controller accumulate an error of 2; \<open>reset\<close>
  with a process value of 6.6 stores the quotient of the \<open>float\<close> values of 6.6 and 3.3,
  which is 2, unclamped; and on the controller with sample interval 0 the stored
  controller output is NaN.
\<close>

theorem scaled_invariant_counterexample:
  "m_accError (snd (compute (snd (compute gentle)))) = Finite 2
   \<and> \<not> in01 (m_accError (snd (compute (snd (compute gentle)))))
   \<and> m_prevProcessVariable (reset (setProcessValue (to_float 6.6) demo)) = Finite 2
   \<and> \<not> in01 (m_prevProcessVariable (reset (setProcessValue (to_float 6.6) demo)))
   \<and> m_controllerOutput (snd (compute zero_interval)) = NaN
   \<and> \<not> in01 (m_controllerOutput (snd (compute zero_interval)))"
  by code_simp

text \<open>
  Claim C3, amended. In every freshly constructed controller the previous scaled
  process variable, the controller output and the previous controller output lie
  between 0 and 1. After \<open>compute\<close>, from any state whatever, each of the three lies
  between 0 and 1 or is NaN. \<open>setTunings\<close>, \<open>setInterval\<close>, \<open>setBias\<close>, \<open>setMode(0)\<close> and
  \<open>setMode\<close> on a controller already in automatic mode leave the three as they are, so
  they stay between 0 and 1 when they were. \<open>setInputLimits\<close> and \<open>setOutputLimits\<close>,
  with any arguments, keep each of the three between 0 and 1 or NaN when it was. The
  accumulated error is not among them: no operation clamps it.
\<close>

theorem scaled_quantities_clamped:
  "scaled_ok (PID_new mem Kc tauI tauD interval)
   \<and> clamped (snd (compute s))
   \<and> (scaled_ok s \<longrightarrow>
        scaled_ok (setTunings Kc tauI tauD s)
        \<and> scaled_ok (setInterval interval s)
        \<and> scaled_ok (setBias bias s)
        \<and> scaled_ok (setMode 0 s)
        \<and> (m_inAuto s \<longrightarrow> scaled_ok (setMode mode s)))
   \<and> (clamped s \<longrightarrow>
        clamped (setInputLimits lo hi s)
        \<and> clamped (setOutputLimits lo hi s)
        \<and> clamped (setTunings Kc tauI tauD s)
        \<and> clamped (setInterval interval s)
        \<and> clamped (setBias bias s)
        \<and> clamped (setMode 0 s)
        \<and> (m_inAuto s \<longrightarrow> clamped (setMode mode s)))"
proof -
  have frame: "scaled_ok s \<longrightarrow>
        scaled_ok (setTunings Kc tauI tauD s)
        \<and> scaled_ok (setInterval interval s)
        \<and> scaled_ok (setBias bias s)
        \<and> scaled_ok (setMode 0 s)
        \<and> (m_inAuto s \<longrightarrow> scaled_ok (setMode mode s))"
    by (simp add: scaled_ok_def setTunings_def setInterval_def setBias_def setMode_def Let_def)
  have frame': "clamped s \<longrightarrow>
        clamped (setTunings Kc tauI tauD s)
        \<and> clamped (setInterval interval s)
        \<and> clamped (setBias bias s)
        \<and> clamped (setMode 0 s)
        \<and> (m_inAuto s \<longrightarrow> clamped (setMode mode s))"
    by (simp add: clamped_def setTunings_def setInterval_def setBias_def setMode_def Let_def)
  show ?thesis
    using frame frame'
    by (simp add: PID_new_scaled compute_clamped setInputLimits_clamped setOutputLimits_clamped)
qed

theorem scaled_quantities_clamped_witness:
  "scaled_ok engaged \<and> clamped engaged \<and> m_inAuto engaged
   \<and> scaled_ok (PID_new zero_mem (Finite 2) (Finite 5) (Finite 1) (Finite 1))
   \<and> clamped (snd (compute engaged))
   \<and> scaled_ok (setTunings (Finite 2) (Finite 5) (Finite 1) engaged)
   \<and> scaled_ok (setInterval (Finite 1) engaged)
   \<and> scaled_ok (setBias (Finite 1) engaged)
   \<and> scaled_ok (setMode 0 engaged)
   \<and> scaled_ok (setMode 1 engaged)
   \<and> clamped (setInputLimits (Finite 0) (Finite 4) engaged)
   \<and> clamped (setOutputLimits (Finite 0) (Finite 4) engaged)"
proof -
  have ok: "scaled_ok engaged"
    by code_simp
  have cl: "clamped engaged"
    by code_simp
  show ?thesis
    using ok cl engaged_auto
      scaled_quantities_clamped [of zero_mem "Finite 2" "Finite 5" "Finite 1" "Finite 1"
        engaged "Finite 1" 1 "Finite 0" "Finite 4"]
    by blast
qed

end
